theory Spec2Isabelle
  imports Main
begin

section \<open>The StocktakeStatus enumeration\<close>

text \<open>
  The source is one class statement:
  \<^verbatim>\<open>
  class StocktakeStatus(str, Enum):
      COMPLETED = "COMPLETED"
      DRAFT = "DRAFT"
      IN_PROGRESS = "IN_PROGRESS"

      def __str__(self) -> str:
          return str(self.value)
  \<close>
  Python creates one object per assignment of the class body when the class statement
  runs, and none afterwards. The three objects are the constructors of a datatype.
\<close>

datatype StocktakeStatus = COMPLETED | DRAFT | IN_PROGRESS

text \<open>
  The left-hand side of each assignment, as a string (the attribute \<open>_name_\<close>), and the
  right-hand side (the attribute \<open>_value_\<close>, read through the property \<open>value\<close>). Since the
  class mixes in \<open>str\<close>, the member is built by \<open>str.__new__(cls, value)\<close>: the right-hand
  side is also the text the member holds as a string.
\<close>

fun name_of :: "StocktakeStatus \<Rightarrow> string" where
  "name_of COMPLETED = ''COMPLETED''"
| "name_of DRAFT = ''DRAFT''"
| "name_of IN_PROGRESS = ''IN_PROGRESS''"

fun value_of :: "StocktakeStatus \<Rightarrow> string" where
  "value_of COMPLETED = ''COMPLETED''"
| "value_of DRAFT = ''DRAFT''"
| "value_of IN_PROGRESS = ''IN_PROGRESS''"

text \<open>The assignments in the order the class body lists them.\<close>

definition class_body :: "StocktakeStatus list" where
  "class_body = [COMPLETED, DRAFT, IN_PROGRESS]"

subsection \<open>The class object\<close>

text \<open>
  The tables \<open>Enum\<close>'s metaclass fills while it runs the class body: \<open>_member_names_\<close>
  (the names of the members, aliases left out), \<open>_member_map_\<close> (every name, aliases
  too, to its member) and \<open>_value2member_map_\<close> (value to member). Dictionaries keep
  insertion order, so they are association lists.
\<close>

record enum_class =
  member_names :: "string list"
  member_map :: "(string \<times> StocktakeStatus) list"
  value2member_map :: "(string \<times> StocktakeStatus) list"

definition empty_class :: enum_class where
  "empty_class = \<lparr>member_names = [], member_map = [], value2member_map = []\<rparr>"

text \<open>
  One assignment of the class body. A name whose value an earlier member already has
  becomes an alias of that member: it is entered in \<open>_member_map_\<close> only, bound to the
  earlier member. Otherwise the new member is entered in all three tables.
\<close>

definition add_member :: "enum_class \<Rightarrow> StocktakeStatus \<Rightarrow> enum_class" where
  "add_member cls m =
     (case find (\<lambda>(n, canonical). value_of canonical = value_of m) (member_map cls) of
        Some (n, canonical) \<Rightarrow>
          cls\<lparr>member_map := member_map cls @ [(name_of m, canonical)]\<rparr>
      | None \<Rightarrow>
          cls\<lparr>member_names := member_names cls @ [name_of m],
              member_map := member_map cls @ [(name_of m, m)],
              value2member_map := value2member_map cls @ [(value_of m, m)]\<rparr>)"

definition StocktakeStatus_class :: enum_class where
  "StocktakeStatus_class = foldl add_member empty_class class_body"

subsection \<open>Python values\<close>

text \<open>
  The values the operations of the type meet: a plain string, a member of the
  enumeration (an instance of a subclass of \<open>str\<close>), and \<open>None\<close> as a value that is not a
  string.
\<close>

datatype pyobj = PyStr string | Member StocktakeStatus | PyNone

text \<open>The text a value holds as a string; \<open>None\<close> holds none.\<close>

fun str_payload :: "pyobj \<Rightarrow> string option" where
  "str_payload (PyStr s) = Some s"
| "str_payload (Member m) = Some (value_of m)"
| "str_payload PyNone = None"

definition isinstance_str :: "pyobj \<Rightarrow> bool" where
  "isinstance_str x = (str_payload x \<noteq> None)"

text \<open>
  \<open>a == b\<close>. The class defines no \<open>__eq__\<close>, and \<open>str\<close> comes before \<open>Enum\<close> in its
  bases, so a member compares as a string: by the text it holds. \<open>None\<close> equals only
  itself.
\<close>

fun py_eq :: "pyobj \<Rightarrow> pyobj \<Rightarrow> bool" where
  "py_eq PyNone PyNone = True"
| "py_eq PyNone b = False"
| "py_eq a PyNone = False"
| "py_eq a b = (str_payload a = str_payload b)"

subsection \<open>Construction\<close>

datatype error = ValueError pyobj | KeyError string

text \<open>
  \<open>cls._value2member_map_[value]\<close>: a dictionary with string keys finds a key by the
  text of the string, whatever subclass of \<open>str\<close> the value is; a value that is not a
  string is not a key.
\<close>

definition value2member :: "enum_class \<Rightarrow> pyobj \<Rightarrow> StocktakeStatus option" where
  "value2member cls x =
     (case str_payload x of
        None \<Rightarrow> None
      | Some s \<Rightarrow> map_of (value2member_map cls) s)"

text \<open>
  \<open>StocktakeStatus(value)\<close>, which runs \<open>Enum.__new__(cls, value)\<close>: a value that is a
  member already is returned as it is; otherwise the value is looked up in
  \<open>_value2member_map_\<close>; otherwise \<open>_missing_\<close> (not overridden, so it returns \<open>None\<close>)
  leaves the \<open>ValueError\<close> "value is not a valid StocktakeStatus" to be raised.
\<close>

fun StocktakeStatus_new :: "enum_class \<Rightarrow> pyobj \<Rightarrow> error + StocktakeStatus" where
  "StocktakeStatus_new cls (Member m) = Inr m"
| "StocktakeStatus_new cls x =
     (case value2member cls x of
        Some m \<Rightarrow> Inr m
      | None \<Rightarrow> Inl (ValueError x))"

subsection \<open>String conversion\<close>

text \<open>The builtin \<open>str\<close> applied to a plain string returns that string.\<close>

definition str_builtin :: "string \<Rightarrow> string" where
  "str_builtin s = s"

text \<open>\<open>__str__\<close>: \<open>return str(self.value)\<close>.\<close>

definition StocktakeStatus_str :: "StocktakeStatus \<Rightarrow> string" where
  "StocktakeStatus_str self = str_builtin (value_of self)"

subsection \<open>Iteration\<close>

text \<open>
  \<open>iter(StocktakeStatus)\<close> yields \<open>cls._member_map_[name]\<close> for each name of
  \<open>cls._member_names_\<close>; a name missing from the dictionary raises \<open>KeyError\<close>.
\<close>

fun members_of :: "(string \<times> StocktakeStatus) list \<Rightarrow> string list \<Rightarrow> error + StocktakeStatus list" where
  "members_of mm [] = Inr []"
| "members_of mm (n # ns) =
     (case map_of mm n of
        None \<Rightarrow> Inl (KeyError n)
      | Some m \<Rightarrow> (case members_of mm ns of Inl e \<Rightarrow> Inl e | Inr ms \<Rightarrow> Inr (m # ms)))"

definition StocktakeStatus_iter :: "enum_class \<Rightarrow> error + StocktakeStatus list" where
  "StocktakeStatus_iter cls = members_of (member_map cls) (member_names cls)"

subsection \<open>Operations run in sequence\<close>





section \<open>The class the class statement builds\<close>

lemma StocktakeStatus_class_tables:
  "StocktakeStatus_class =
     \<lparr>member_names = [''COMPLETED'', ''DRAFT'', ''IN_PROGRESS''],
      member_map = [(''COMPLETED'', COMPLETED), (''DRAFT'', DRAFT), (''IN_PROGRESS'', IN_PROGRESS)],
      value2member_map = [(''COMPLETED'', COMPLETED), (''DRAFT'', DRAFT), (''IN_PROGRESS'', IN_PROGRESS)]\<rparr>"
  by (simp add: StocktakeStatus_class_def class_body_def empty_class_def add_member_def)

lemma value2member_PyStr:
  "value2member StocktakeStatus_class (PyStr s) =
     (if s = ''COMPLETED'' then Some COMPLETED
      else if s = ''DRAFT'' then Some DRAFT
      else if s = ''IN_PROGRESS'' then Some IN_PROGRESS
      else None)"
  by (simp add: value2member_def StocktakeStatus_class_tables)

lemma value_of_eq_iff: "(value_of a = value_of b) = (a = b)"
  by (cases a; cases b) simp_all






section \<open>Construction from a string\<close>

text \<open>
  C1. Constructing a StocktakeStatus from a string that is none of \<open>"COMPLETED"\<close>,
  \<open>"DRAFT"\<close>, \<open>"IN_PROGRESS"\<close> fails: Python raises the \<open>ValueError\<close> that names the
  rejected value (the unrecognized-token error of the type), and no member is returned
  in its place. The match is exact: the lowercase \<open>"completed"\<close> and the empty string
  are rejected.
\<close>

theorem construct_unrecognized:
  "s \<notin> {''COMPLETED'', ''DRAFT'', ''IN_PROGRESS''} \<Longrightarrow>
     StocktakeStatus_new StocktakeStatus_class (PyStr s) = Inl (ValueError (PyStr s))
     \<and> (\<forall>m. StocktakeStatus_new StocktakeStatus_class (PyStr s) \<noteq> Inr m)"
  by (simp add: value2member_PyStr)

theorem construct_unrecognized_witness:
  "''completed'' \<notin> {''COMPLETED'', ''DRAFT'', ''IN_PROGRESS''}
   \<and> StocktakeStatus_new StocktakeStatus_class (PyStr ''completed'') = Inl (ValueError (PyStr ''completed''))
   \<and> '''' \<notin> {''COMPLETED'', ''DRAFT'', ''IN_PROGRESS''}
   \<and> StocktakeStatus_new StocktakeStatus_class (PyStr '''') = Inl (ValueError (PyStr ''''))"
proof -
  have lower: "''completed'' \<notin> {''COMPLETED'', ''DRAFT'', ''IN_PROGRESS''}" by simp
  have empty: "'''' \<notin> {''COMPLETED'', ''DRAFT'', ''IN_PROGRESS''}" by simp
  show ?thesis
    using lower empty construct_unrecognized [OF lower] construct_unrecognized [OF empty]
    by simp
qed

text \<open>
  C2. Round trip: for each of the three members \<open>v\<close>, constructing from the string
  conversion of \<open>v\<close> gives \<open>v\<close> back.
\<close>

theorem construct_roundtrip:
  "StocktakeStatus_new StocktakeStatus_class (PyStr (StocktakeStatus_str v)) = Inr v"
  by (cases v) (simp_all add: value2member_PyStr StocktakeStatus_str_def str_builtin_def)

section \<open>String conversion\<close>

text \<open>
  C3. The string conversion of each member is its symbolic name, and the underlying
  value of each member is the string equal to its name.
\<close>

theorem str_is_name:
  "StocktakeStatus_str v = name_of v
   \<and> value_of v = name_of v
   \<and> StocktakeStatus_str COMPLETED = ''COMPLETED''
   \<and> StocktakeStatus_str DRAFT = ''DRAFT''
   \<and> StocktakeStatus_str IN_PROGRESS = ''IN_PROGRESS''"
  by (cases v) (simp_all add: StocktakeStatus_str_def str_builtin_def)

section \<open>The closed set of members\<close>


section \<open>Equality\<close>

text \<open>
  C5. Two members compare equal exactly when they are the same member. Equality on the
  members is reflexive, symmetric and transitive, and distinct members, such as
  \<open>COMPLETED\<close> and \<open>DRAFT\<close>, are never equal.
\<close>

theorem member_equality:
  "py_eq (Member v) (Member w) = (v = w)
   \<and> py_eq (Member v) (Member v)
   \<and> py_eq (Member v) (Member w) = py_eq (Member w) (Member v)
   \<and> (py_eq (Member u) (Member v) \<and> py_eq (Member v) (Member w) \<longrightarrow> py_eq (Member u) (Member w))
   \<and> (v \<noteq> w \<longrightarrow> \<not> py_eq (Member v) (Member w))
   \<and> \<not> py_eq (Member COMPLETED) (Member DRAFT)"
  by (auto simp: value_of_eq_iff)

theorem member_equality_witness:
  "py_eq (Member DRAFT) (Member DRAFT)
   \<and> COMPLETED \<noteq> DRAFT
   \<and> \<not> py_eq (Member COMPLETED) (Member DRAFT)"
  using member_equality [where u = DRAFT and v = DRAFT and w = DRAFT]
    member_equality [where u = DRAFT and v = COMPLETED and w = DRAFT]
  by simp

section \<open>Totality and purity\<close>



section \<open>Members as strings\<close>

text \<open>
  C8. Every member is a string and compares equal to its plain token, in both
  directions: \<open>StocktakeStatus.DRAFT == "DRAFT"\<close> holds. So a member is equal to a value
  that is not a member of the enumeration.
\<close>

theorem member_equals_token:
  "isinstance_str (Member v)
   \<and> py_eq (Member v) (PyStr (value_of v))
   \<and> py_eq (PyStr (value_of v)) (Member v)
   \<and> py_eq (Member v) (PyStr (StocktakeStatus_str v))
   \<and> py_eq (Member DRAFT) (PyStr ''DRAFT'')
   \<and> (\<exists>x. (\<forall>m. x \<noteq> Member m) \<and> py_eq (Member v) x)"
proof -
  have tok: "py_eq (Member v) (PyStr (value_of v))" by simp
  have ex: "\<exists>x. (\<forall>m. x \<noteq> Member m) \<and> py_eq (Member v) x"
    by (rule exI [of _ "PyStr (value_of v)"]) simp
  show ?thesis
    using ex by (simp add: isinstance_str_def StocktakeStatus_str_def str_builtin_def)
qed

text \<open>
  C9. Construction from a member: for each member \<open>v\<close>, \<open>StocktakeStatus(v)\<close> succeeds
  and returns \<open>v\<close>. The member is a string holding its own token, and looking it up by
  value finds the same member.
\<close>

theorem construct_idempotent:
  "StocktakeStatus_new StocktakeStatus_class (Member v) = Inr v
   \<and> value2member StocktakeStatus_class (Member v) = Some v
   \<and> isinstance_str (Member v)
   \<and> str_payload (Member v) = Some (StocktakeStatus_str v)"
  by (cases v) (simp_all add: value2member_def StocktakeStatus_class_tables isinstance_str_def
      StocktakeStatus_str_def str_builtin_def)

section \<open>Iteration\<close>

text \<open>
  C10. Iterating over the type yields \<open>COMPLETED\<close>, \<open>DRAFT\<close>, \<open>IN_PROGRESS\<close>, in the order
  of the class body. No name is an alias: each name is bound to its own member, and the
  three underlying values are distinct.
\<close>

theorem iteration_order:
  "StocktakeStatus_iter StocktakeStatus_class = Inr [COMPLETED, DRAFT, IN_PROGRESS]
   \<and> member_map StocktakeStatus_class
       = [(''COMPLETED'', COMPLETED), (''DRAFT'', DRAFT), (''IN_PROGRESS'', IN_PROGRESS)]
   \<and> distinct (map value_of [COMPLETED, DRAFT, IN_PROGRESS])"
  by (simp add: StocktakeStatus_iter_def StocktakeStatus_class_tables)

end
